theory Spec2Isabelle
  imports
    Complex_Main
    "HOL-Library.Char_ord"
    "HOL-Library.List_Lexorder"
    "HOL-Library.Multiset"
    "HOL-Library.AList"
begin

section \<open>The statistical aggregation engine of the trading journal\<close>

text \<open>
  A shallow embedding of \<^verbatim>\<open>src/services/analysisService.ts\<close> and of the declarations of
  \<^verbatim>\<open>types.ts\<close> it reads.

  Conventions of the embedding.
  \<^item> A JavaScript \<^verbatim>\<open>number\<close> is a \<^typ>\<open>real\<close>: NaN, the infinities and the sign of
    zero are outside the model. Sums and averages of MFE and MAE are taken over the reals.
    The index of the percentile estimator, whose \<^verbatim>\<open>Math.floor\<close> depends on the
    rounding of the product, is computed with the rounded operations of doubles. A count
    or an array index is a \<^typ>\<open>nat\<close> or an \<^typ>\<open>int\<close>.
  \<^item> A JavaScript string is a \<^typ>\<open>string\<close>; the default comparison of
    \<^verbatim>\<open>Array.prototype.sort\<close> (code unit by code unit, a proper prefix first) is the
    lexicographic order of \<^typ>\<open>char list\<close>.
  \<^item> \<^verbatim>\<open>Array.prototype.sort\<close> is stable (ECMAScript 2019), as \<^const>\<open>sort_key\<close> is.
  \<^item> A \<^verbatim>\<open>Map\<close> is an association list in insertion order: \<^verbatim>\<open>get\<close> is
    \<^const>\<open>map_of\<close>, \<^verbatim>\<open>set\<close> is \<^const>\<open>AList.update\<close> (an existing key keeps
    its place, a new key goes last) and \<^verbatim>\<open>forEach\<close> walks the list. A \<^verbatim>\<open>Set\<close> is a
    list without repetitions, in insertion order.
\<close>

subsection \<open>Data model (types.ts)\<close>

text \<open>
  The fields of \<^verbatim>\<open>Trade\<close> that the analysis service reads. \<^verbatim>\<open>session\<close> is optional
  in the source (\<^verbatim>\<open>session?: string\<close>); \<^const>\<open>None\<close> is the absent field.
\<close>

record Trade =
  timestamp :: string
  session :: "string option"
  taLevels :: "string list"
  delta :: real
  oi :: real
  entryType :: string
  mfe :: real
  mae :: real

datatype DeltaCategory = HIGH_PLUS | HIGH | LOW

text \<open>The string value of each member of the enum.\<close>

fun DeltaCategory_value :: "DeltaCategory \<Rightarrow> string" where
  "DeltaCategory_value HIGH_PLUS = ''High++''"
| "DeltaCategory_value HIGH = ''High''"
| "DeltaCategory_value LOW = ''Low''"

text \<open>
  The derived results. \<^verbatim>\<open>PairAnalysisResult\<close> and \<^verbatim>\<open>AnalysisResult\<close> share the field
  names \<^verbatim>\<open>avgMfe\<close> and \<^verbatim>\<open>count\<close>; the plain names are those of
  \<^verbatim>\<open>AnalysisResult\<close>, declared last, and those of \<^verbatim>\<open>PairAnalysisResult\<close> are written
  with the record's name in front.
\<close>

record PairAnalysisResult =
  pair :: "string \<times> string"
  avgMfe :: real
  count :: nat

record AnalysisResult =
  level :: string
  avgMfe :: real
  avgMae :: real
  medianMfe :: real
  medianMae :: real
  count :: nat
  score :: real

text \<open>
  A cell of the heat map, \<^verbatim>\<open>{ avgMfe, count }\<close> in the source, is a pair; \<^verbatim>\<open>grid\<close> is
  the \<^verbatim>\<open>Map\<close> from the composite key to the cell.
\<close>

record HeatmapData =
  xLabels :: "string list"
  yLabels :: "string list"
  grid :: "(string \<times> real \<times> nat) list"
  maxMfe :: real

subsection \<open>Delta categorizer\<close>

definition getDeltaCategory :: "real \<Rightarrow> DeltaCategory" where
  "getDeltaCategory d =
     (let absDelta = \<bar>d\<bar> in
      if absDelta > 20 then HIGH_PLUS
      else if absDelta > 7 then HIGH
      else LOW)"

subsection \<open>Session classifier\<close>

text \<open>
  \<^verbatim>\<open>new Date(dateStr).getHours()\<close> belongs to the platform and depends on the time zone
  of the machine, so it is a parameter \<open>getHours\<close>: the local hour of the timestamp, or
  \<^const>\<open>None\<close> for NaN, which is what an unparsable string gives. Every comparison with
  NaN is false, so that case falls through to the last \<^verbatim>\<open>return\<close>.
\<close>

definition getSessionFromTime :: "(string \<Rightarrow> int option) \<Rightarrow> string \<Rightarrow> string" where
  "getSessionFromTime getHours dateStr =
     (case getHours dateStr of
        None \<Rightarrow> ''S4''
      | Some hour \<Rightarrow>
          if hour \<ge> 5 \<and> hour < 11 then ''S1''
          else if hour \<ge> 11 \<and> hour < 17 then ''S2''
          else if hour \<ge> 17 \<and> hour < 23 then ''S3''
          else if hour \<ge> 1 \<and> hour < 5 then ''IS4''
          else ''S4'')"

subsection \<open>Duration formatting\<close>

text \<open>
  A template literal prints an integral number of magnitude below \<open>2\<^sup>5\<^sup>3\<close> as its
  decimal numeral. From \<open>2\<^sup>5\<^sup>3\<close> on it prints the shortest digits that read back as the
  same double, and from \<open>10\<^sup>2\<^sup>1\<close> on an exponent; that printing belongs to the platform
  and is the parameter \<open>largeToString\<close>.
\<close>

definition digitChar :: "nat \<Rightarrow> char" where
  "digitChar d = ''0123456789'' ! d"

fun natToString :: "nat \<Rightarrow> string" where
  "natToString n =
     (if n < 10 then [digitChar n] else natToString (n div 10) @ [digitChar (n mod 10)])"

declare natToString.simps [simp del]

definition numberToString :: "(int \<Rightarrow> string) \<Rightarrow> int \<Rightarrow> string" where
  "numberToString largeToString i =
     (if \<bar>i\<bar> \<ge> 2 ^ 53 then largeToString i
      else if i < 0 then CHR ''-'' # natToString (nat (- i))
      else natToString (nat i))"

text \<open>\<^verbatim>\<open>Math.round\<close>: the nearest integer, a tie going up.\<close>

definition Math_round :: "real \<Rightarrow> int" where
  "Math_round x = \<lfloor>x + 1 / 2\<rfloor>"

text \<open>
  The remainder operator \<^verbatim>\<open>%\<close> for a non-zero divisor: the quotient is truncated
  towards zero and the result is exact.
\<close>

definition js_rem :: "real \<Rightarrow> real \<Rightarrow> real" where
  "js_rem a b = a - b * of_int (if a / b < 0 then \<lceil>a / b\<rceil> else \<lfloor>a / b\<rfloor>)"

definition formatDuration :: "(int \<Rightarrow> string) \<Rightarrow> real \<Rightarrow> string" where
  "formatDuration largeToString minutes =
     (if minutes = 0 then ''-''
      else if minutes < 60 then numberToString largeToString (Math_round minutes) @ ''m''
      else
        let hours = \<lfloor>minutes / 60\<rfloor>;
            mins = Math_round (js_rem minutes 60)
        in numberToString largeToString hours @ ''h '' @
           numberToString largeToString mins @ ''m'')"

subsection \<open>Arithmetic in doubles\<close>

text \<open>
  Division and multiplication of doubles return the double nearest to the exact result,
  a tie going to the one with the even significand. A double of the binade of exponent
  \<open>e\<close> is a multiple of \<open>2\<^sup>e\<^sup>-\<^sup>5\<^sup>2\<close>; below \<open>2\<^sup>-\<^sup>1\<^sup>0\<^sup>2\<^sup>2\<close> the spacing stays that of the
  exponent \<open>- 1022\<close>. A result of magnitude \<open>2\<^sup>1\<^sup>0\<^sup>2\<^sup>4\<close> or more, an infinity in
  the source, stays finite here.
\<close>

definition roundTiesToEven :: "real \<Rightarrow> int" where
  "roundTiesToEven q =
     (let f = \<lfloor>q\<rfloor>; d = q - of_int f
      in if d < 1 / 2 then f
         else if d > 1 / 2 then f + 1
         else if even f then f else f + 1)"

definition double_exponent :: "real \<Rightarrow> int" where
  "double_exponent x = max \<lfloor>log 2 \<bar>x\<bar>\<rfloor> (- 1022)"

definition to_double :: "real \<Rightarrow> real" where
  "to_double x =
     (if x = 0 then 0
      else
        let ulp = 2 powr of_int (double_exponent x - 52)
        in of_int (roundTiesToEven (x / ulp)) * ulp)"

definition js_divide :: "real \<Rightarrow> real \<Rightarrow> real" where
  "js_divide a b = to_double (a / b)"

definition js_times :: "real \<Rightarrow> real \<Rightarrow> real" where
  "js_times a b = to_double (a * b)"

subsection \<open>Percentile estimator\<close>

text \<open>
  The index is computed as the source computes it, in doubles: the quotient
  \<^verbatim>\<open>percentile / 100\<close> is rounded, then its product with the length, and
  \<^verbatim>\<open>Math.floor\<close> is applied to that. The index that went to infinity in the source is
  clamped to the last position like the finite one here. The result is \<^const>\<open>None\<close>
  where the source reads the sorted array at a negative index and returns
  \<^verbatim>\<open>undefined\<close>, which a negative percentile causes.
\<close>

definition getOIPercentileValue :: "Trade list \<Rightarrow> real \<Rightarrow> real option" where
  "getOIPercentileValue trades percentile =
     (if length trades = 0 then Some 0
      else
        let ois = sort (map oi trades);
            index = \<lfloor>js_times (js_divide percentile 100) (real (length ois))\<rfloor>;
            i = min index (int (length ois) - 1)
        in if 0 \<le> i then Some (ois ! nat i) else None)"

subsection \<open>Median\<close>

definition calculateMedian :: "real list \<Rightarrow> real" where
  "calculateMedian values =
     (if length values = 0 then 0
      else
        let sorted' = sort values;
            mid = length sorted' div 2
        in if length sorted' mod 2 \<noteq> 0 then sorted' ! mid
           else (sorted' ! (mid - 1) + sorted' ! mid) / 2)"

subsection \<open>Single-factor aggregator\<close>

text \<open>
  The filter every aggregator applies to the slots of a trade:
  \<^verbatim>\<open>trade.taLevels.filter((l) => l !== 'None' && l !== '')\<close>.
\<close>

definition activeLevels :: "Trade \<Rightarrow> string list" where
  "activeLevels trade = filter (\<lambda>l. l \<noteq> ''None'' \<and> l \<noteq> '''') (taLevels trade)"

text \<open>\<^verbatim>\<open>Set.prototype.add\<close> and \<^verbatim>\<open>new Set(array)\<close>: first occurrences, in order.\<close>

definition set_add :: "'a list \<Rightarrow> 'a \<Rightarrow> 'a list" where
  "set_add s x = (if x \<in> set s then s else s @ [x])"

definition new_Set :: "'a list \<Rightarrow> 'a list" where
  "new_Set xs = foldl set_add [] xs"

text \<open>
  The body of the inner \<^verbatim>\<open>forEach\<close>: the values of the trade are pushed on the lists
  of the level, which start empty for a level not seen before.
\<close>

definition pushStats ::
  "Trade \<Rightarrow> (string \<times> real list \<times> real list) list \<Rightarrow> string
    \<Rightarrow> (string \<times> real list \<times> real list) list" where
  "pushStats trade statsMap level' =
     (let current = (case map_of statsMap level' of Some c \<Rightarrow> c | None \<Rightarrow> ([], []))
      in AList.update level' (fst current @ [mfe trade], snd current @ [mae trade]) statsMap)"

definition collectLevelStats :: "Trade list \<Rightarrow> (string \<times> real list \<times> real list) list" where
  "collectLevelStats trades =
     foldl (\<lambda>statsMap trade.
              let uniqueLevels = new_Set (activeLevels trade)
              in foldl (pushStats trade) statsMap uniqueLevels)
       [] trades"

text \<open>The row pushed for one entry of the map; \<^verbatim>\<open>reduce\<close> is a fold from the left.\<close>

definition toAnalysisResult :: "string \<times> real list \<times> real list \<Rightarrow> AnalysisResult" where
  "toAnalysisResult entry =
     (case entry of (key, mfes, maes) \<Rightarrow>
        let count' = length mfes;
            totalMfe = foldl (+) 0 mfes;
            totalMae = foldl (+) 0 maes
        in \<lparr> level = key,
             avgMfe = totalMfe / real count',
             avgMae = totalMae / real count',
             medianMfe = calculateMedian mfes,
             medianMae = calculateMedian maes,
             count = count',
             score = (totalMfe / real count') - (totalMae / real count') \<rparr>)"

text \<open>
  The comparator \<^verbatim>\<open>(a, b) => b.avgMfe - a.avgMfe\<close> sorts by descending average MFE;
  rows of equal average keep the order of the map.
\<close>

definition calculateSingleFactorStats :: "Trade list \<Rightarrow> AnalysisResult list" where
  "calculateSingleFactorStats trades =
     (let results = map toAnalysisResult (collectLevelStats trades)
      in sort_key (\<lambda>r. - avgMfe r) results)"

subsection \<open>Pairwise aggregator\<close>

text \<open>
  The two nested loops over the positions \<open>i < j\<close> of the sorted active levels, in the
  order in which they run.
\<close>

definition levelPairs :: "string list \<Rightarrow> (string \<times> string) list" where
  "levelPairs activeLevels' =
     [(activeLevels' ! i, activeLevels' ! j).
        i \<leftarrow> [0 ..< length activeLevels'], j \<leftarrow> [i + 1 ..< length activeLevels']]"

text \<open>
  The body of the inner loop; an entry of the map is
  \<^verbatim>\<open>{ totalMfe, count, p1, p2 }\<close>, here a tuple in this order.
\<close>

definition addPair ::
  "Trade \<Rightarrow> (string \<times> real \<times> nat \<times> string \<times> string) list \<Rightarrow> string \<times> string
    \<Rightarrow> (string \<times> real \<times> nat \<times> string \<times> string) list" where
  "addPair trade pairMap p =
     (case p of (p1, p2) \<Rightarrow>
        let key = p1 @ ''|'' @ p2;
            current = (case map_of pairMap key of Some c \<Rightarrow> c | None \<Rightarrow> (0, 0, p1, p2))
        in AList.update key (fst current + mfe trade, fst (snd current) + 1, p1, p2) pairMap)"

definition collectPairStats ::
  "Trade list \<Rightarrow> (string \<times> real \<times> nat \<times> string \<times> string) list" where
  "collectPairStats trades =
     foldl (\<lambda>pairMap trade.
              let activeLevels' = sort (activeLevels trade)
              in foldl (addPair trade) pairMap (levelPairs activeLevels'))
       [] trades"

definition toPairResult :: "string \<times> real \<times> nat \<times> string \<times> string \<Rightarrow> PairAnalysisResult" where
  "toPairResult entry =
     (case entry of (key, totalMfe, count', p1, p2) \<Rightarrow>
        \<lparr> pair = (p1, p2),
          PairAnalysisResult.avgMfe = totalMfe / real count',
          PairAnalysisResult.count = count' \<rparr>)"

definition calculatePairStats :: "Trade list \<Rightarrow> PairAnalysisResult list" where
  "calculatePairStats trades =
     (let results = map toPairResult (collectPairStats trades)
      in sort_key (\<lambda>r. - PairAnalysisResult.avgMfe r)
           (filter (\<lambda>r. PairAnalysisResult.count r \<ge> 2) results))"

subsection \<open>Heat map of TA level against entry type\<close>

text \<open>
  The state of the first loop is \<^verbatim>\<open>levelSet\<close>, \<^verbatim>\<open>entrySet\<close> and \<^verbatim>\<open>matrix\<close>; an
  entry of \<^verbatim>\<open>matrix\<close> is \<^verbatim>\<open>{ totalMfe, count }\<close>. A trade whose entry type is falsy
  (the empty string) is skipped by the early \<^verbatim>\<open>return\<close>.
\<close>

definition addCell ::
  "Trade \<Rightarrow> string \<Rightarrow> string list \<times> (string \<times> real \<times> nat) list \<Rightarrow> string
    \<Rightarrow> string list \<times> (string \<times> real \<times> nat) list" where
  "addCell trade x st level' =
     (case st of (levelSet, matrix) \<Rightarrow>
        let key = level' @ ''::'' @ x;
            current = (case map_of matrix key of Some c \<Rightarrow> c | None \<Rightarrow> (0, 0))
        in (set_add levelSet level',
            AList.update key (fst current + mfe trade, snd current + 1) matrix))"

definition heatmapStep ::
  "string list \<times> string list \<times> (string \<times> real \<times> nat) list \<Rightarrow> Trade
    \<Rightarrow> string list \<times> string list \<times> (string \<times> real \<times> nat) list" where
  "heatmapStep st trade =
     (case st of (levelSet, entrySet, matrix) \<Rightarrow>
        if entryType trade = '''' then st
        else
          let entrySet' = set_add entrySet (entryType trade);
              (levelSet', matrix') =
                foldl (addCell trade (entryType trade)) (levelSet, matrix) (activeLevels trade)
          in (levelSet', entrySet', matrix'))"

text \<open>The second loop: the averages, and their running maximum, which starts at 0.\<close>

definition gridStep ::
  "(string \<times> real \<times> nat) list \<times> real \<Rightarrow> string \<times> real \<times> nat
    \<Rightarrow> (string \<times> real \<times> nat) list \<times> real" where
  "gridStep st entry =
     (case (st, entry) of ((grid', maxMfe'), (key, totalMfe, count')) \<Rightarrow>
        let avg = totalMfe / real count'
        in (AList.update key (avg, count') grid', if avg > maxMfe' then avg else maxMfe'))"

definition calculateHeatmapStats :: "Trade list \<Rightarrow> HeatmapData" where
  "calculateHeatmapStats trades =
     (case foldl heatmapStep ([], [], []) trades of (levelSet, entrySet, matrix) \<Rightarrow>
        case foldl gridStep ([], 0) matrix of (grid', maxMfe') \<Rightarrow>
          \<lparr> xLabels = sort entrySet,
            yLabels = sort levelSet,
            grid = grid',
            maxMfe = maxMfe' \<rparr>)"

subsection \<open>Heat maps of TA level against session and against delta category\<close>

text \<open>
  \<^verbatim>\<open>Array.prototype.indexOf\<close>: the first position of the element, or \<open>-1\<close>.
\<close>

fun indexOf :: "'a list \<Rightarrow> 'a \<Rightarrow> int" where
  "indexOf [] x = - 1"
| "indexOf (y # ys) x =
     (if y = x then 0 else (let i = indexOf ys x in if i < 0 then - 1 else i + 1))"

text \<open>
  \<^verbatim>\<open>trade.session || 'N/A'\<close>: an absent or empty session is the label \<open>N/A\<close>. No trade is
  skipped in these two variants.
\<close>

definition sessionHeatmapStep ::
  "string list \<times> string list \<times> (string \<times> real \<times> nat) list \<Rightarrow> Trade
    \<Rightarrow> string list \<times> string list \<times> (string \<times> real \<times> nat) list" where
  "sessionHeatmapStep st trade =
     (case st of (levelSet, sessionSet, matrix) \<Rightarrow>
        let session' = (case session trade of
                          None \<Rightarrow> ''N/A''
                        | Some s \<Rightarrow> if s = '''' then ''N/A'' else s);
            sessionSet' = set_add sessionSet session';
            (levelSet', matrix') =
              foldl (addCell trade session') (levelSet, matrix) (activeLevels trade)
        in (levelSet', sessionSet', matrix'))"

definition calculateSessionLevelHeatmap :: "Trade list \<Rightarrow> HeatmapData" where
  "calculateSessionLevelHeatmap trades =
     (case foldl sessionHeatmapStep ([], [], []) trades of (levelSet, sessionSet, matrix) \<Rightarrow>
        case foldl gridStep ([], 0) matrix of (grid', maxMfe') \<Rightarrow>
          let sessionOrder = [''S1'', ''S2'', ''S3'', ''S4'', ''IS4'', ''N/A'']
          in \<lparr> xLabels = sort_key (indexOf sessionOrder) sessionSet,
               yLabels = sort levelSet,
               grid = grid',
               maxMfe = maxMfe' \<rparr>)"

definition deltaHeatmapStep ::
  "string list \<times> string list \<times> (string \<times> real \<times> nat) list \<Rightarrow> Trade
    \<Rightarrow> string list \<times> string list \<times> (string \<times> real \<times> nat) list" where
  "deltaHeatmapStep st trade =
     (case st of (levelSet, deltaSet, matrix) \<Rightarrow>
        let deltaCat = DeltaCategory_value (getDeltaCategory (delta trade));
            deltaSet' = set_add deltaSet deltaCat;
            (levelSet', matrix') =
              foldl (addCell trade deltaCat) (levelSet, matrix) (activeLevels trade)
        in (levelSet', deltaSet', matrix'))"

definition calculateDeltaLevelHeatmap :: "Trade list \<Rightarrow> HeatmapData" where
  "calculateDeltaLevelHeatmap trades =
     (case foldl deltaHeatmapStep ([], [], []) trades of (levelSet, deltaSet, matrix) \<Rightarrow>
        case foldl gridStep ([], 0) matrix of (grid', maxMfe') \<Rightarrow>
          let deltaOrder = map DeltaCategory_value [HIGH_PLUS, HIGH, LOW]
          in \<lparr> xLabels = sort_key (indexOf deltaOrder) deltaSet,
               yLabels = sort levelSet,
               grid = grid',
               maxMfe = maxMfe' \<rparr>)"

subsection \<open>Conditional best-level finder\<close>

text \<open>
  The predicate receives the threshold as \<open>getOIPercentileValue\<close> returns it.
\<close>

definition getBestLevelForCondition ::
  "Trade list \<Rightarrow> (Trade \<Rightarrow> real option \<Rightarrow> bool) \<Rightarrow> AnalysisResult option" where
  "getBestLevelForCondition trades conditionFn =
     (if length trades = 0 then None
      else
        let oiThreshold = getOIPercentileValue trades 75;
            filteredTrades = filter (\<lambda>t. conditionFn t oiThreshold) trades
        in if length filteredTrades = 0 then None
           else
             let stats = calculateSingleFactorStats filteredTrades
             in if length stats > 0 then Some (stats ! 0) else None)"

subsection \<open>The specification's wording, for comparison\<close>

text \<open>
  The formatting as the specification words it, for comparison with the code: the minutes
  component is \<open>round minutes mod 60\<close> and the hours component is
  \<open>\<lfloor>minutes / 60\<rfloor>\<close>.
\<close>

definition formatDuration_spec :: "(int \<Rightarrow> string) \<Rightarrow> real \<Rightarrow> string" where
  "formatDuration_spec largeToString minutes =
     (if minutes = 0 then ''-''
      else if minutes < 60 then numberToString largeToString (round minutes) @ ''m''
      else numberToString largeToString \<lfloor>minutes / 60\<rfloor> @ ''h '' @
           numberToString largeToString (round minutes mod 60) @ ''m'')"


subsection \<open>Notions used in the statements\<close>

text \<open>
  The trades of a list that hold the level \<open>l\<close> in one of their slots, \<open>l\<close> being a real
  level (neither \<^verbatim>\<open>'None'\<close> nor the empty string): the trades that contribute to the
  group of \<open>l\<close>, each of them once.
\<close>

definition levelGroup :: "string \<Rightarrow> Trade list \<Rightarrow> Trade list" where
  "levelGroup l trades =
     filter (\<lambda>t. l \<in> set (taLevels t) \<and> l \<noteq> ''None'' \<and> l \<noteq> '''') trades"

text \<open>The value of a level in the map after the values of a trade were pushed on it.\<close>

definition pushed :: "Trade \<Rightarrow> (real list \<times> real list) option \<Rightarrow> real list \<times> real list" where
  "pushed trade c =
     (let current = (case c of Some c \<Rightarrow> c | None \<Rightarrow> ([], []))
      in (fst current @ [mfe trade], snd current @ [mae trade]))"

text \<open>A trade for the example scenarios, built from the fields the aggregators read.\<close>

definition exampleTrade :: "string list \<Rightarrow> string \<Rightarrow> real \<Rightarrow> real \<Rightarrow> real \<Rightarrow> Trade" where
  "exampleTrade levels entry mfe' mae' oi' =
     \<lparr> timestamp = ''2024-03-01T10:15'', session = None, taLevels = levels, delta = 0,
       oi = oi', entryType = entry, mfe = mfe', mae = mae' \<rparr>"

section \<open>Properties\<close>

subsection \<open>Delta categorizer\<close>

text \<open>
  C9. The category of a delta depends only on its magnitude:
  \<open>getDeltaCategory (- x) = getDeltaCategory x\<close>. The tests are strict, so the category is
  \<open>High++\<close> exactly when \<open>\<bar>x\<bar> > 20\<close>, \<open>High\<close> exactly when \<open>7 < \<bar>x\<bar> \<le> 20\<close> and
  \<open>Low\<close> exactly when \<open>\<bar>x\<bar> \<le> 7\<close>; the boundary values 7 and 20 fall in the lower
  category.
\<close>

theorem getDeltaCategory_magnitude:
  "getDeltaCategory (- x) = getDeltaCategory x
   \<and> (getDeltaCategory x = HIGH_PLUS \<longleftrightarrow> \<bar>x\<bar> > 20)
   \<and> (getDeltaCategory x = HIGH \<longleftrightarrow> 7 < \<bar>x\<bar> \<and> \<bar>x\<bar> \<le> 20)
   \<and> (getDeltaCategory x = LOW \<longleftrightarrow> \<bar>x\<bar> \<le> 7)
   \<and> getDeltaCategory 7 = LOW
   \<and> getDeltaCategory 20 = HIGH"
  by (auto simp add: getDeltaCategory_def Let_def)

subsection \<open>Session classifier\<close>

text \<open>
  C8. For a timestamp whose local hour is \<open>h\<close>, an integer from 0 to 23, the label is
  \<open>S1\<close> exactly for \<open>5 \<le> h < 11\<close>, \<open>S2\<close> exactly for \<open>11 \<le> h < 17\<close>, \<open>S3\<close>
  exactly for \<open>17 \<le> h < 23\<close>, \<open>IS4\<close> exactly for \<open>1 \<le> h < 5\<close> and \<open>S4\<close> exactly
  for the remaining hours 0 and 23: every hour gets one of the five labels, and the five
  ranges neither overlap nor leave a gap.
\<close>

theorem getSessionFromTime_partition:
  assumes "getHours dateStr = Some h" and "0 \<le> h" and "h < 24"
  shows "(getSessionFromTime getHours dateStr = ''S1'' \<longleftrightarrow> 5 \<le> h \<and> h < 11)
    \<and> (getSessionFromTime getHours dateStr = ''S2'' \<longleftrightarrow> 11 \<le> h \<and> h < 17)
    \<and> (getSessionFromTime getHours dateStr = ''S3'' \<longleftrightarrow> 17 \<le> h \<and> h < 23)
    \<and> (getSessionFromTime getHours dateStr = ''IS4'' \<longleftrightarrow> 1 \<le> h \<and> h < 5)
    \<and> (getSessionFromTime getHours dateStr = ''S4'' \<longleftrightarrow> h = 0 \<or> h = 23)
    \<and> getSessionFromTime getHours dateStr \<in> {''S1'', ''S2'', ''S3'', ''S4'', ''IS4''}"
  using assms by (auto simp add: getSessionFromTime_def)

theorem getSessionFromTime_partition_witness:
  "(\<lambda>_. Some 23) ''2024-03-01T23:15'' = Some (23::int) \<and> (0::int) \<le> 23 \<and> (23::int) < 24
   \<and> getSessionFromTime (\<lambda>_. Some 23) ''2024-03-01T23:15'' = ''S4''
   \<and> getSessionFromTime (\<lambda>_. Some 23) ''2024-03-01T23:15'' \<noteq> ''S3''"
  using getSessionFromTime_partition [of "\<lambda>_. Some 23" "''2024-03-01T23:15''" 23]
  by simp

subsection \<open>Duration formatting\<close>

lemma js_rem_60:
  assumes "60 \<le> m"
  shows "js_rem m 60 = m - 60 * of_int \<lfloor>m / 60\<rfloor>"
    and "0 \<le> js_rem m 60"
    and "js_rem m 60 < 60"
proof -
  have nn: "\<not> m / 60 < 0" using assms by simp
  show e: "js_rem m 60 = m - 60 * of_int \<lfloor>m / 60\<rfloor>"
    using nn by (simp add: js_rem_def)
  show "0 \<le> js_rem m 60" unfolding e by linarith
  show "js_rem m 60 < 60" unfolding e by linarith
qed

lemma round_hours_minutes:
  assumes "60 \<le> (m::real)"
  shows "round m = 60 * \<lfloor>m / 60\<rfloor> + round (js_rem m 60)"
proof -
  have "m + 1 / 2 = of_int (60 * \<lfloor>m / 60\<rfloor>) + (js_rem m 60 + 1 / 2)"
    by (simp add: js_rem_60(1) [OF assms])
  then have "\<lfloor>m + 1 / 2\<rfloor> = 60 * \<lfloor>m / 60\<rfloor> + \<lfloor>js_rem m 60 + 1 / 2\<rfloor>"
    by (metis floor_add_int add.commute)
  then show ?thesis by (simp add: round_def)
qed

lemma round_rem_bounds:
  assumes "60 \<le> (m::real)"
  shows "0 \<le> round (js_rem m 60)" and "round (js_rem m 60) \<le> 60"
    and "js_rem m 60 < 119 / 2 \<Longrightarrow> round (js_rem m 60) < 60"
    and "119 / 2 \<le> js_rem m 60 \<Longrightarrow> round (js_rem m 60) = 60"
  using js_rem_60(2,3) [OF assms] unfolding round_def by linarith+

text \<open>
  Where the code and the specification's formatting agree: on every value below 60, and
  on every value from 60 on whose remainder by 60 is below 59.5. The three examples of
  the specification are among them.
\<close>

lemma formatDuration_agrees_spec:
  assumes "m < 60 \<or> m - 60 * of_int \<lfloor>m / 60\<rfloor> < 119 / 2"
  shows "formatDuration largeToString m = formatDuration_spec largeToString m"
proof (cases "m < 60")
  case True
  then show ?thesis
    by (simp add: formatDuration_def formatDuration_spec_def Math_round_def round_def)
next
  case False
  then have ge: "60 \<le> m" by simp
  with assms False have lt: "js_rem m 60 < 119 / 2" by (simp add: js_rem_60(1))
  let ?k = "round (js_rem m 60)"
  have k: "0 \<le> ?k" "?k < 60"
    using round_rem_bounds(1,3) [OF ge] lt by simp_all
  have "round m mod 60 = (60 * \<lfloor>m / 60\<rfloor> + ?k) mod 60"
    by (simp only: round_hours_minutes [OF ge])
  also have "\<dots> = ?k" using k by simp
  finally have "round m mod 60 = Math_round (js_rem m 60)"
    by (simp add: Math_round_def round_def)
  with ge show ?thesis
    by (simp add: formatDuration_def formatDuration_spec_def Let_def)
qed

lemma formatDuration_examples:
  "formatDuration largeToString 0 = ''-''"
  "formatDuration largeToString 45 = ''45m''"
  "formatDuration largeToString 125 = ''2h 5m''"
  by (simp_all add: formatDuration_def numberToString_def Math_round_def natToString.simps
      digitChar_def js_rem_def)

text \<open>
  C3, evaluated on the code. At 119.5 minutes the hours are \<open>\<lfloor>119.5 / 60\<rfloor> = 1\<close> and the
  remainder \<open>119.5 % 60 = 59.5\<close> is rounded to 60, so the code prints \<open>1h 60m\<close>. The claim
  gives the minutes component \<open>round 119.5 mod 60 = 0\<close>, a value below 60, and so does the
  specification's formatting, \<open>1h 0m\<close>.
\<close>

theorem formatDuration_sixty_minutes:
  "formatDuration largeToString (239 / 2) = ''1h 60m''
   \<and> formatDuration_spec largeToString (239 / 2) = ''1h 0m''
   \<and> round (239 / 2 :: real) mod 60 = 0"
  by (simp add: formatDuration_def formatDuration_spec_def numberToString_def Math_round_def
      round_def natToString.simps digitChar_def js_rem_def)

subsection \<open>Arithmetic in doubles\<close>

lemma double_exponent_eqI:
  assumes "2 powr of_int e \<le> \<bar>x\<bar>" and "\<bar>x\<bar> < 2 powr of_int (e + 1)" and "- 1022 \<le> e"
  shows "double_exponent x = e"
proof -
  have pos: "0 < \<bar>x\<bar>" using assms(1) by (smt (verit) powr_gt_zero)
  have "\<lfloor>log 2 \<bar>x\<bar>\<rfloor> = e"
    using assms(1,2) pos by (simp add: floor_log_eq_powr_iff)
  then show ?thesis using assms(3) by (simp add: double_exponent_def)
qed

lemma roundTiesToEven_of_int: "roundTiesToEven (of_int k) = k"
  by (simp add: roundTiesToEven_def)

lemma roundTiesToEven_nonneg: "0 \<le> q \<Longrightarrow> 0 \<le> roundTiesToEven q"
  by (simp add: roundTiesToEven_def Let_def)


lemma to_double_unfold:
  "x \<noteq> 0 \<Longrightarrow> double_exponent x = e \<Longrightarrow>
   to_double x =
     of_int (roundTiesToEven (x / 2 powr of_int (e - 52))) * 2 powr of_int (e - 52)"
  by (simp add: to_double_def Let_def)

lemma to_double_nonneg: "0 \<le> x \<Longrightarrow> 0 \<le> to_double x"
  by (simp add: to_double_def Let_def roundTiesToEven_nonneg)


text \<open>
  A positive multiple of a quarter with a numerator below \<open>2\<^sup>5\<^sup>3\<close> is a double: rounding
  leaves it as it is.
\<close>

lemma to_double_quarters:
  assumes "0 < m" and "m < 2 ^ 53"
  shows "to_double (of_int m / 4) = of_int m / 4"
proof -
  let ?x = "real_of_int m / 4"
  have xpos: "0 < ?x" using assms(1) by simp
  define e where "e = \<lfloor>log 2 ?x\<rfloor>"
  have b: "2 powr of_int e \<le> ?x" "?x < 2 powr of_int (e + 1)"
    using floor_log_eq_powr_iff [of ?x 2 e] xpos by (simp_all add: e_def)
  have "1 / 4 \<le> ?x" using assms(1) by simp
  then have "(2::real) powr of_int (- 2) < 2 powr of_int (e + 1)"
    using b(2) by (simp add: powr_minus powr_numeral)
  then have "real_of_int (- 2) < real_of_int (e + 1)"
    by (rule powr_less_cancel) simp
  then have elo: "- 2 \<le> e" by linarith
  have "real_of_int m < 2 ^ 53" using assms(2) by (metis of_int_less_numeral_power_cancel_iff)
  then have "?x < 2 ^ 51" by simp
  with b(1) have "(2::real) powr of_int e < 2 powr of_int 51"
    by (simp add: powr_numeral)
  then have "real_of_int e < real_of_int 51"
    by (rule powr_less_cancel) simp
  then have ehi: "e \<le> 50" by linarith
  define n where "n = nat (50 - e)"
  have n: "int n = 50 - e" using ehi by (simp add: n_def)
  have u: "(2::real) powr of_int (e - 52) = 2 powr of_int e / 2 ^ 52"
    by (simp add: powr_diff powr_numeral)
  have "(2::real) powr of_int e * 2 ^ n = 2 powr (of_int e + real n)"
    by (simp add: powr_add powr_realpow)
  also have "of_int e + real n = (50::real)" using n by linarith
  finally have pe: "(2::real) powr of_int e * 2 ^ n = 2 ^ 50" by (simp add: powr_numeral)
  have pepos: "0 < (2::real) powr of_int e" by simp
  have q: "?x / (2 powr of_int (e - 52)) = of_int (m * 2 ^ n)"
  proof -
    have "?x / (2 powr of_int (e - 52)) = real_of_int m * 2 ^ 50 / 2 powr of_int e"
      unfolding u by (simp add: field_simps)
    also have "\<dots> = real_of_int m * (2 powr of_int e * 2 ^ n) / 2 powr of_int e"
      by (simp only: pe)
    also have "\<dots> = real_of_int m * 2 ^ n" using pepos by simp
    finally show ?thesis by simp
  qed
  have ex: "double_exponent ?x = e"
  proof (rule double_exponent_eqI)
    show "2 powr of_int e \<le> \<bar>?x\<bar>" using b(1) xpos by (simp only: abs_of_pos)
    show "\<bar>?x\<bar> < 2 powr of_int (e + 1)" using b(2) xpos by (simp only: abs_of_pos)
    show "- 1022 \<le> e" using elo by simp
  qed
  have nz: "?x \<noteq> 0" using xpos by simp
  have "to_double ?x = of_int (m * 2 ^ n) * 2 powr of_int (e - 52)"
    unfolding to_double_unfold [OF nz ex] q roundTiesToEven_of_int ..
  also have "\<dots> = ?x"
    using q by (metis nonzero_eq_divide_eq powr_non_neg powr_eq_0_iff mult.commute
        zero_neq_numeral)
  finally show ?thesis .
qed

text \<open>
  At the percentile 75 the index is exact: \<open>75 / 100\<close> is the double \<open>0.75\<close>, and three
  quarters of a length below \<open>2\<^sup>5\<^sup>1\<close> is a double. An array has fewer than \<open>2\<^sup>3\<^sup>2\<close>
  elements.
\<close>

lemma percentile_index_75:
  assumes "0 < n" and "n < 2 ^ 51"
  shows "js_times (js_divide 75 100) (real n) = 75 / 100 * real n"
proof -
  have a: "js_divide 75 100 = 3 / 4"
    using to_double_quarters [of 3] by (simp add: js_divide_def)
  have "int n < 2 ^ 51" using assms(2) by (metis of_nat_less_numeral_power_cancel_iff)
  then have "3 * int n < 2 ^ 53" by simp
  moreover have "0 < 3 * int n" using assms(1) by simp
  ultimately have "to_double (of_int (3 * int n) / 4) = of_int (3 * int n) / 4"
    by (rule to_double_quarters [rotated])
  then show ?thesis by (simp add: js_times_def a)
qed




subsection \<open>Percentile estimator\<close>

lemma sort_cong_mset: "mset xs = mset ys \<Longrightarrow> sort xs = sort (ys :: 'a::linorder list)"
  by (metis mset_sort sorted_sort properties_for_sort)

text \<open>
  For a percentile that is not negative the index is an index of the sorted values, so
  the result is one of the open-interest values of the list.
\<close>

lemma getOIPercentileValue_index:
  assumes "trades \<noteq> []"
    and "\<lfloor>js_times (js_divide p 100) (real (length trades))\<rfloor> = i" and "0 \<le> i"
  shows "getOIPercentileValue trades p =
    Some (sort (map oi trades) ! min (nat i) (length trades - 1))"
proof -
  let ?n = "length trades"
  have n: "0 < ?n" using assms(1) by simp
  have m: "0 \<le> min i (int ?n - 1)" using assms(3) n by simp
  have e: "nat (min i (int ?n - 1)) = min (nat i) (?n - 1)"
    using assms(3) n by (simp add: min_def) linarith
  have "getOIPercentileValue trades p =
      (if 0 \<le> min i (int ?n - 1) then Some (sort (map oi trades) ! nat (min i (int ?n - 1)))
       else None)"
  proof -
    have nz: "(length trades = 0) = False" using n by simp
    show ?thesis
      unfolding getOIPercentileValue_def Let_def length_sort length_map assms(2) nz if_False ..
  qed
  also have "\<dots> = Some (sort (map oi trades) ! min (nat i) (?n - 1))"
    by (simp only: m e if_True)
  finally show ?thesis .
qed

lemma getOIPercentileValue_nonneg:
  assumes "trades \<noteq> []" and "0 \<le> p"
  shows "getOIPercentileValue trades p =
    Some (sort (map oi trades) !
            min (nat \<lfloor>js_times (js_divide p 100) (real (length trades))\<rfloor>)
              (length trades - 1))"
proof -
  have "0 \<le> js_times (js_divide p 100) (real (length trades))"
    using assms(2) by (simp add: js_times_def js_divide_def to_double_nonneg)
  then have "0 \<le> \<lfloor>js_times (js_divide p 100) (real (length trades))\<rfloor>" by simp
  from getOIPercentileValue_index [OF assms(1) refl this] show ?thesis .
qed

lemma getOIPercentileValue_in_set:
  assumes "trades \<noteq> []" and "0 \<le> p"
  shows "\<exists>v \<in> set (map oi trades). getOIPercentileValue trades p = Some v"
proof -
  let ?i = "min (nat \<lfloor>js_times (js_divide p 100) (real (length trades))\<rfloor>)
    (length trades - 1)"
  have "0 < length trades" using assms(1) by simp
  then have "?i < length (sort (map oi trades))" by (simp add: min_less_iff_disj)
  then have "sort (map oi trades) ! ?i \<in> set (sort (map oi trades))" by (rule nth_mem)
  then have "sort (map oi trades) ! ?i \<in> set (map oi trades)" by simp
  with getOIPercentileValue_nonneg [OF assms] show ?thesis by blast
qed

lemma getOIPercentileValue_75:
  assumes "trades \<noteq> []" and "length trades < 2 ^ 51"
  shows "getOIPercentileValue trades 75 =
    Some (sort (map oi trades) !
            min (nat \<lfloor>75 / 100 * real (length trades)\<rfloor>) (length trades - 1))"
proof -
  have "0 < length trades" using assms(1) by simp
  note e = percentile_index_75 [OF this assms(2)]
  have p: "(0::real) \<le> 75" by simp
  show ?thesis by (rule getOIPercentileValue_nonneg [OF assms(1) p, unfolded e])
qed

text \<open>
  What holds of the estimator for every trade list: the empty list gives 0, a reordering
  of the list leaves the result unchanged, and the open-interest values 10, 20, 30, 40
  give 40 at the percentile 75.
\<close>

lemma getOIPercentileValue_Nil: "getOIPercentileValue [] p = Some 0"
  by (simp add: getOIPercentileValue_def)

lemma getOIPercentileValue_perm:
  assumes "mset trades' = mset trades"
  shows "getOIPercentileValue trades' p = getOIPercentileValue trades p"
proof -
  have l: "length trades' = length trades" using assms by (metis size_mset)
  have "mset (map oi trades') = mset (map oi trades)" using assms by (metis mset_map)
  then have "sort (map oi trades') = sort (map oi trades)" by (rule sort_cong_mset)
  with l show ?thesis by (simp add: getOIPercentileValue_def)
qed

lemma getOIPercentileValue_example:
  assumes "map oi trades = [10, 20, 30, 40]"
  shows "getOIPercentileValue trades 75 = Some 40"
proof -
  have "length (map oi trades) = 4" using assms by simp
  then have l: "length trades = 4" by simp
  then have ne: "trades \<noteq> []" by auto
  show ?thesis using getOIPercentileValue_75 [OF ne] assms l by simp
qed


subsection \<open>Single-factor aggregator\<close>

lemma foldl_plus_sum_list: "foldl (+) a xs = a + sum_list (xs :: real list)"
  by (induction xs arbitrary: a) simp_all

lemma mem_activeLevels:
  "l \<in> set (activeLevels t) \<longleftrightarrow> l \<in> set (taLevels t) \<and> l \<noteq> ''None'' \<and> l \<noteq> ''''"
  by (auto simp add: activeLevels_def)

lemma set_foldl_set_add: "set (foldl set_add acc xs) = set acc \<union> set xs"
  by (induction xs arbitrary: acc) (auto simp add: set_add_def)

lemma distinct_foldl_set_add: "distinct acc \<Longrightarrow> distinct (foldl set_add acc xs)"
  by (induction xs arbitrary: acc) (simp_all add: set_add_def)

lemma set_new_Set: "set (new_Set xs) = set xs"
  by (simp add: new_Set_def set_foldl_set_add)

lemma distinct_new_Set: "distinct (new_Set xs)"
  by (simp add: new_Set_def distinct_foldl_set_add)

lemma map_of_pushStats:
  "map_of (pushStats trade m l) = (map_of m)(l \<mapsto> pushed trade (map_of m l))"
  by (simp add: pushStats_def pushed_def update_conv' Let_def)

lemma distinct_pushStats:
  "distinct (map fst m) \<Longrightarrow> distinct (map fst (pushStats trade m l))"
  by (simp add: pushStats_def Let_def distinct_update)

text \<open>One trade, pushed on each of its distinct levels, extends exactly their lists.\<close>

lemma map_of_foldl_pushStats:
  "distinct ls \<Longrightarrow>
   map_of (foldl (pushStats trade) m ls) l =
     (if l \<in> set ls then Some (pushed trade (map_of m l)) else map_of m l)"
proof (induction ls arbitrary: m)
  case Nil
  then show ?case by simp
next
  case (Cons a ls)
  then show ?case by (auto simp add: map_of_pushStats)
qed

lemma distinct_foldl_pushStats:
  "distinct (map fst m) \<Longrightarrow> distinct (map fst (foldl (pushStats trade) m ls))"
  by (induction ls arbitrary: m) (simp_all add: distinct_pushStats)

lemma collectLevelStats_snoc:
  "collectLevelStats (trades @ [trade]) =
     foldl (pushStats trade) (collectLevelStats trades) (new_Set (activeLevels trade))"
  by (simp add: collectLevelStats_def Let_def)

lemma distinct_collectLevelStats: "distinct (map fst (collectLevelStats trades))"
proof (induction trades rule: rev_induct)
  case Nil
  then show ?case by (simp add: collectLevelStats_def)
next
  case (snoc t trades)
  then show ?case by (simp add: collectLevelStats_snoc distinct_foldl_pushStats)
qed

text \<open>
  The invariant of the first loop: the map holds, for each level, the MFE and MAE values
  of the trades of its group, in the order of the trades, and no entry for a level whose
  group is empty.
\<close>

lemma map_of_collectLevelStats:
  "map_of (collectLevelStats trades) l =
     (if levelGroup l trades = [] then None
      else Some (map mfe (levelGroup l trades), map mae (levelGroup l trades)))"
proof (induction trades rule: rev_induct)
  case Nil
  then show ?case by (simp add: collectLevelStats_def levelGroup_def)
next
  case (snoc t trades)
  show ?case
  proof (cases "l \<in> set (activeLevels t)")
    case True
    then have g: "levelGroup l (trades @ [t]) = levelGroup l trades @ [t]"
      by (simp add: levelGroup_def mem_activeLevels)
    from True show ?thesis
      unfolding collectLevelStats_snoc g
      by (simp add: map_of_foldl_pushStats distinct_new_Set set_new_Set snoc.IH pushed_def)
  next
    case False
    then have g: "levelGroup l (trades @ [t]) = levelGroup l trades"
      by (simp add: levelGroup_def mem_activeLevels)
    from False show ?thesis
      unfolding collectLevelStats_snoc g
      by (simp add: map_of_foldl_pushStats distinct_new_Set set_new_Set snoc.IH)
  qed
qed

lemma collectLevelStats_entry:
  assumes "(l, mfes, maes) \<in> set (collectLevelStats trades)"
  shows "levelGroup l trades \<noteq> []"
    and "mfes = map mfe (levelGroup l trades)"
    and "maes = map mae (levelGroup l trades)"
proof -
  from assms distinct_collectLevelStats
  have "map_of (collectLevelStats trades) l = Some (mfes, maes)"
    by (simp add: map_of_eq_Some_iff)
  then show "levelGroup l trades \<noteq> []" "mfes = map mfe (levelGroup l trades)"
    "maes = map mae (levelGroup l trades)"
    by (simp_all add: map_of_collectLevelStats split: if_splits)
qed

lemma keys_collectLevelStats:
  "fst ` set (collectLevelStats trades) = (\<Union>t \<in> set trades. set (activeLevels t))"
proof -
  have "fst ` set (collectLevelStats trades) = dom (map_of (collectLevelStats trades))"
    by (simp add: dom_map_of_conv_image_fst)
  also have "\<dots> = {l. levelGroup l trades \<noteq> []}"
    by (auto simp add: dom_def map_of_collectLevelStats)
  also have "\<dots> = (\<Union>t \<in> set trades. set (activeLevels t))"
    by (auto simp add: levelGroup_def filter_empty_conv mem_activeLevels)
  finally show ?thesis .
qed

lemma level_toAnalysisResult: "level (toAnalysisResult e) = fst e"
  by (cases e) (simp add: toAnalysisResult_def Let_def)

lemma set_calculateSingleFactorStats:
  "set (calculateSingleFactorStats trades) = toAnalysisResult ` set (collectLevelStats trades)"
  by (simp add: calculateSingleFactorStats_def)

lemma row_of_level:
  assumes "r \<in> set (calculateSingleFactorStats trades)"
  shows "r = toAnalysisResult (level r, map mfe (levelGroup (level r) trades),
              map mae (levelGroup (level r) trades))"
    and "levelGroup (level r) trades \<noteq> []"
proof -
  from assms obtain l mfes maes where
    e: "(l, mfes, maes) \<in> set (collectLevelStats trades)"
    and r: "r = toAnalysisResult (l, mfes, maes)"
    by (auto simp add: set_calculateSingleFactorStats)
  have l: "level r = l" by (simp add: r level_toAnalysisResult)
  from collectLevelStats_entry [OF e] r l
  show "r = toAnalysisResult (level r, map mfe (levelGroup (level r) trades),
              map mae (levelGroup (level r) trades))"
    and "levelGroup (level r) trades \<noteq> []"
    by simp_all
qed

lemma row_fields:
  assumes "r \<in> set (calculateSingleFactorStats trades)"
  defines "g \<equiv> levelGroup (level r) trades"
  shows "g \<noteq> []"
    and "count r = length g"
    and "avgMfe r = sum_list (map mfe g) / real (length g)"
    and "avgMae r = sum_list (map mae g) / real (length g)"
    and "medianMfe r = calculateMedian (map mfe g)"
    and "medianMae r = calculateMedian (map mae g)"
    and "score r = avgMfe r - avgMae r"
proof -
  note r = row_of_level [OF assms(1), folded g_def]
  let ?R = "toAnalysisResult (level r, map mfe g, map mae g)"
  show "g \<noteq> []" by (rule r(2))
  have c: "count ?R = length g"
    and m: "avgMfe ?R = sum_list (map mfe g) / real (length g)"
    and a: "avgMae ?R = sum_list (map mae g) / real (length g)"
    and s: "score ?R = avgMfe ?R - avgMae ?R"
    and mm: "medianMfe ?R = calculateMedian (map mfe g)"
    and ma: "medianMae ?R = calculateMedian (map mae g)"
    by (simp_all add: toAnalysisResult_def Let_def foldl_plus_sum_list)
  from arg_cong [OF r(1), of count] c show "count r = length g" by simp
  from arg_cong [OF r(1), of avgMfe] m
  show am: "avgMfe r = sum_list (map mfe g) / real (length g)" by simp
  from arg_cong [OF r(1), of avgMae] a
  show aa: "avgMae r = sum_list (map mae g) / real (length g)" by simp
  from arg_cong [OF r(1), of medianMfe] mm
  show "medianMfe r = calculateMedian (map mfe g)" by simp
  from arg_cong [OF r(1), of medianMae] ma
  show "medianMae r = calculateMedian (map mae g)" by simp
  from arg_cong [OF r(1), of score] s m a am aa
  show "score r = avgMfe r - avgMae r" by simp
qed

lemma levels_calculateSingleFactorStats:
  "level ` set (calculateSingleFactorStats trades) = (\<Union>t \<in> set trades. set (activeLevels t))"
proof -
  have "level ` set (calculateSingleFactorStats trades) = fst ` set (collectLevelStats trades)"
    by (simp add: set_calculateSingleFactorStats image_image level_toAnalysisResult)
  then show ?thesis by (simp add: keys_collectLevelStats)
qed

lemma distinct_levels_calculateSingleFactorStats:
  "distinct (map level (calculateSingleFactorStats trades))"
proof -
  have "mset (map level (calculateSingleFactorStats trades)) =
      mset (map fst (collectLevelStats trades))"
    by (simp add: calculateSingleFactorStats_def multiset.map_comp comp_def
        level_toAnalysisResult)
  then show ?thesis
    using distinct_collectLevelStats [of trades] by (metis mset_eq_imp_distinct_iff)
qed

lemma sorted_calculateSingleFactorStats:
  "sorted_wrt (\<lambda>a b. avgMfe a \<ge> avgMfe b) (calculateSingleFactorStats trades)"
proof -
  have "sorted (map (\<lambda>r. - avgMfe r) (calculateSingleFactorStats trades))"
    by (simp add: calculateSingleFactorStats_def)
  then show ?thesis by (simp add: sorted_map sorted_wrt_iff_nth_less)
qed

lemma calculateMedian_cases:
  "(odd (length vs) \<longrightarrow> calculateMedian vs = sort vs ! (length vs div 2))
   \<and> (vs \<noteq> [] \<and> even (length vs) \<longrightarrow>
        calculateMedian vs = (sort vs ! (length vs div 2 - 1) + sort vs ! (length vs div 2)) / 2)"
  by (auto simp add: calculateMedian_def Let_def odd_iff_mod_2_eq_one)

lemma single_factor_example:
  "map (\<lambda>r. (level r, count r, avgMfe r))
     (calculateSingleFactorStats
        [t1\<lparr>taLevels := [''A'', ''B''], mfe := 10\<rparr>, t2\<lparr>taLevels := [''A''], mfe := 20\<rparr>,
         t3\<lparr>taLevels := [''A'', ''B''], mfe := 6\<rparr>])
   = [(''A'', 3, 12), (''B'', 2, 8)]"
  by (simp add: calculateSingleFactorStats_def collectLevelStats_def toAnalysisResult_def
      pushStats_def new_Set_def set_add_def activeLevels_def Let_def)

text \<open>
  C6. Every row of \<open>calculateSingleFactorStats\<close> stands for one level. Its group is the
  trades that hold the level in some slot, the level being neither \<^verbatim>\<open>'None'\<close> nor empty,
  each such trade once; the group is not empty, \<open>count\<close> is its size, \<open>avgMfe\<close> and
  \<open>avgMae\<close> are the arithmetic means of MFE and MAE over it, \<open>medianMfe\<close> and \<open>medianMae\<close>
  are the medians of these values and \<open>score = avgMfe - avgMae\<close>. The levels of the rows
  are exactly the real levels held by some trade, each in one row, and the rows are in
  descending order of \<open>avgMfe\<close>. The median of an odd number of values is the middle
  sorted value, that of an even number the mean of the two central sorted values. On three
  trades with the levels \<open>[A, B]\<close>, \<open>[A]\<close>, \<open>[A, B]\<close> and the MFE values 10, 20, 6 the
  rows are \<open>A\<close> with count 3 and average 12, then \<open>B\<close> with count 2 and average 8.
\<close>

theorem calculateSingleFactorStats_groups:
  "(\<forall>r \<in> set (calculateSingleFactorStats trades).
      levelGroup (level r) trades \<noteq> []
      \<and> count r = length (levelGroup (level r) trades)
      \<and> avgMfe r = sum_list (map mfe (levelGroup (level r) trades)) / real (count r)
      \<and> avgMae r = sum_list (map mae (levelGroup (level r) trades)) / real (count r)
      \<and> medianMfe r = calculateMedian (map mfe (levelGroup (level r) trades))
      \<and> medianMae r = calculateMedian (map mae (levelGroup (level r) trades))
      \<and> score r = avgMfe r - avgMae r)
   \<and> level ` set (calculateSingleFactorStats trades) =
       (\<Union>t \<in> set trades. {l \<in> set (taLevels t). l \<noteq> ''None'' \<and> l \<noteq> ''''})
   \<and> distinct (map level (calculateSingleFactorStats trades))
   \<and> sorted_wrt (\<lambda>a b. avgMfe a \<ge> avgMfe b) (calculateSingleFactorStats trades)
   \<and> (odd (length vs) \<longrightarrow> calculateMedian vs = sort vs ! (length vs div 2))
   \<and> (vs \<noteq> [] \<and> even (length vs) \<longrightarrow>
        calculateMedian vs = (sort vs ! (length vs div 2 - 1) + sort vs ! (length vs div 2)) / 2)
   \<and> map (\<lambda>r. (level r, count r, avgMfe r))
        (calculateSingleFactorStats
           [t1\<lparr>taLevels := [''A'', ''B''], mfe := 10\<rparr>, t2\<lparr>taLevels := [''A''], mfe := 20\<rparr>,
            t3\<lparr>taLevels := [''A'', ''B''], mfe := 6\<rparr>])
      = [(''A'', 3, 12), (''B'', 2, 8)]"
proof -
  have rows: "\<forall>r \<in> set (calculateSingleFactorStats trades).
      levelGroup (level r) trades \<noteq> []
      \<and> count r = length (levelGroup (level r) trades)
      \<and> avgMfe r = sum_list (map mfe (levelGroup (level r) trades)) / real (count r)
      \<and> avgMae r = sum_list (map mae (levelGroup (level r) trades)) / real (count r)
      \<and> medianMfe r = calculateMedian (map mfe (levelGroup (level r) trades))
      \<and> medianMae r = calculateMedian (map mae (levelGroup (level r) trades))
      \<and> score r = avgMfe r - avgMae r"
  proof
    fix r assume r: "r \<in> set (calculateSingleFactorStats trades)"
    note f = row_fields [OF r]
    from f(1) f(2) f(3) [folded f(2)] f(4) [folded f(2)] f(5) f(6) f(7)
    show "levelGroup (level r) trades \<noteq> []
      \<and> count r = length (levelGroup (level r) trades)
      \<and> avgMfe r = sum_list (map mfe (levelGroup (level r) trades)) / real (count r)
      \<and> avgMae r = sum_list (map mae (levelGroup (level r) trades)) / real (count r)
      \<and> medianMfe r = calculateMedian (map mfe (levelGroup (level r) trades))
      \<and> medianMae r = calculateMedian (map mae (levelGroup (level r) trades))
      \<and> score r = avgMfe r - avgMae r"
      by blast
  qed
  have levels: "level ` set (calculateSingleFactorStats trades) =
       (\<Union>t \<in> set trades. {l \<in> set (taLevels t). l \<noteq> ''None'' \<and> l \<noteq> ''''})"
    unfolding levels_calculateSingleFactorStats by (auto simp add: mem_activeLevels)
  from rows levels distinct_levels_calculateSingleFactorStats [of trades]
    sorted_calculateSingleFactorStats [of trades] calculateMedian_cases [of vs]
    single_factor_example [of t1 t2 t3]
  show ?thesis by blast
qed

theorem calculateSingleFactorStats_groups_witness:
  "\<lparr> level = ''A'', avgMfe = 12, avgMae = 2, medianMfe = 10, medianMae = 2, count = 3,
     score = 10 \<rparr>
     \<in> set (calculateSingleFactorStats
          [exampleTrade [''A'', ''B''] ''SFP'' 10 1 0, exampleTrade [''A''] ''SFP'' 20 2 0,
           exampleTrade [''A'', ''B''] ''SFP'' 6 3 0])
   \<and> length (levelGroup ''A''
          [exampleTrade [''A'', ''B''] ''SFP'' 10 1 0, exampleTrade [''A''] ''SFP'' 20 2 0,
           exampleTrade [''A'', ''B''] ''SFP'' 6 3 0]) = 3
   \<and> sum_list (map mfe (levelGroup ''A''
          [exampleTrade [''A'', ''B''] ''SFP'' 10 1 0, exampleTrade [''A''] ''SFP'' 20 2 0,
           exampleTrade [''A'', ''B''] ''SFP'' 6 3 0])) = 36
   \<and> odd (length [1, 2, 3 :: real]) \<and> calculateMedian [1, 2, 3] = 2
   \<and> [1, 2, 3, 4 :: real] \<noteq> [] \<and> even (length [1, 2, 3, 4 :: real])
   \<and> calculateMedian [1, 2, 3, 4] = 5 / 2"
proof -
  let ?ts = "[exampleTrade [''A'', ''B''] ''SFP'' 10 1 0, exampleTrade [''A''] ''SFP'' 20 2 0,
              exampleTrade [''A'', ''B''] ''SFP'' 6 3 0]"
  let ?r = "\<lparr> level = ''A'', avgMfe = 12, avgMae = 2, medianMfe = 10, medianMae = 2,
              count = 3, score = 10 \<rparr>"
  have mem: "?r \<in> set (calculateSingleFactorStats ?ts)"
    by (simp add: calculateSingleFactorStats_def collectLevelStats_def toAnalysisResult_def
        pushStats_def new_Set_def set_add_def activeLevels_def calculateMedian_def Let_def
        exampleTrade_def)
  have o: "odd (length [1, 2, 3 :: real])" by simp
  have e: "[1, 2, 3, 4 :: real] \<noteq> [] \<and> even (length [1, 2, 3, 4 :: real])" by simp
  from calculateSingleFactorStats_groups [of ?ts "[1, 2, 3]"] mem
  have "count ?r = length (levelGroup (level ?r) ?ts)"
    and "avgMfe ?r = sum_list (map mfe (levelGroup (level ?r) ?ts)) / real (count ?r)"
    by blast+
  then have g: "length (levelGroup ''A'' ?ts) = 3"
    and s: "sum_list (map mfe (levelGroup ''A'' ?ts)) = 36"
    by simp_all
  from calculateSingleFactorStats_groups [of ?ts "[1, 2, 3]"] o
  have "calculateMedian [1, 2, 3] = sort [1, 2, 3 :: real] ! (length [1, 2, 3 :: real] div 2)"
    by blast
  then have m3: "calculateMedian [1, 2, 3] = 2" by simp
  from calculateSingleFactorStats_groups [of ?ts "[1, 2, 3, 4]"] e
  have "calculateMedian [1, 2, 3, 4] =
      (sort [1, 2, 3, 4 :: real] ! (length [1, 2, 3, 4 :: real] div 2 - 1)
       + sort [1, 2, 3, 4 :: real] ! (length [1, 2, 3, 4 :: real] div 2)) / 2"
    by blast
  then have m4: "calculateMedian [1, 2, 3, 4] = 5 / 2" by simp
  from mem g s o m3 e m4 show ?thesis by blast
qed

subsection \<open>Conditional best-level finder\<close>

lemma calculateSingleFactorStats_Nil_iff:
  "calculateSingleFactorStats trades = [] \<longleftrightarrow> (\<forall>t \<in> set trades. activeLevels t = [])"
proof -
  have "calculateSingleFactorStats trades = [] \<longleftrightarrow>
      level ` set (calculateSingleFactorStats trades) = {}"
    by simp
  also have "\<dots> \<longleftrightarrow> (\<forall>t \<in> set trades. activeLevels t = [])"
    unfolding levels_calculateSingleFactorStats by simp
  finally show ?thesis .
qed

lemma getBestLevelForCondition_eq:
  "getBestLevelForCondition trades conditionFn =
     (case calculateSingleFactorStats
             (filter (\<lambda>t. conditionFn t (getOIPercentileValue trades 75)) trades) of
        [] \<Rightarrow> None
      | r # _ \<Rightarrow> Some r)"
proof (cases "filter (\<lambda>t. conditionFn t (getOIPercentileValue trades 75)) trades = []")
  case True
  then have "calculateSingleFactorStats
      (filter (\<lambda>t. conditionFn t (getOIPercentileValue trades 75)) trades) = []"
    by (simp add: calculateSingleFactorStats_Nil_iff)
  with True show ?thesis by (simp add: getBestLevelForCondition_def Let_def)
next
  case False
  then have "trades \<noteq> []" by auto
  with False show ?thesis
    by (simp add: getBestLevelForCondition_def Let_def nth_Cons' split: list.split)
qed

lemma sorted_wrt_head_greatest:
  assumes "sorted_wrt (\<lambda>a b. f a \<ge> (f b :: real)) (x # xs)" and "y \<in> set (x # xs)"
  shows "f y \<le> f x"
  using assms by auto

text \<open>
  C5. \<open>getBestLevelForCondition\<close> returns none for the empty list. For a non-empty list
  the threshold handed to the predicate is the 75th-percentile open interest of the whole
  input list, \<open>getOIPercentileValue trades 75\<close>, a defined value that does not depend on
  the predicate: one of the open-interest values of the list, and for a list of fewer than
  \<open>2\<^sup>5\<^sup>1\<close> trades (an array has fewer than \<open>2\<^sup>3\<^sup>2\<close> elements) the sorted value at the
  index \<open>\<lfloor>75 / 100 * n\<rfloor>\<close> clamped to \<open>n - 1\<close>. The result is the first row of the
  single-factor statistics of the trades that satisfy the predicate at that threshold,
  none if there is no such trade.
  A returned row is a row of these statistics with the greatest average MFE. Two
  predicates that agree on the trades of the list at that threshold give the same result.
\<close>

theorem getBestLevelForCondition_threshold:
  "getBestLevelForCondition [] conditionFn = None
   \<and> (trades \<noteq> [] \<longrightarrow>
        (\<exists>v \<in> set (map oi trades). getOIPercentileValue trades 75 = Some v))
   \<and> (trades \<noteq> [] \<and> length trades < 2 ^ 51 \<longrightarrow>
        getOIPercentileValue trades 75 =
          Some (sort (map oi trades) !
                  min (nat \<lfloor>75 / 100 * real (length trades)\<rfloor>) (length trades - 1)))
   \<and> getBestLevelForCondition trades conditionFn =
       (case calculateSingleFactorStats
               (filter (\<lambda>t. conditionFn t (getOIPercentileValue trades 75)) trades) of
          [] \<Rightarrow> None
        | r # _ \<Rightarrow> Some r)
   \<and> (filter (\<lambda>t. conditionFn t (getOIPercentileValue trades 75)) trades = [] \<longrightarrow>
        getBestLevelForCondition trades conditionFn = None)
   \<and> (getBestLevelForCondition trades conditionFn = Some best \<longrightarrow>
        best \<in> set (calculateSingleFactorStats
                      (filter (\<lambda>t. conditionFn t (getOIPercentileValue trades 75)) trades))
        \<and> (\<forall>r \<in> set (calculateSingleFactorStats
                        (filter (\<lambda>t. conditionFn t (getOIPercentileValue trades 75)) trades)).
              avgMfe r \<le> avgMfe best))
   \<and> ((\<forall>t \<in> set trades.
          conditionFn' t (getOIPercentileValue trades 75) =
          conditionFn t (getOIPercentileValue trades 75)) \<longrightarrow>
        getBestLevelForCondition trades conditionFn' =
        getBestLevelForCondition trades conditionFn)"
proof -
  let ?th = "getOIPercentileValue trades 75"
  let ?stats = "calculateSingleFactorStats (filter (\<lambda>t. conditionFn t ?th) trades)"
  have empty: "getBestLevelForCondition [] conditionFn = None"
    by (simp add: getBestLevelForCondition_def)
  have df: "\<exists>v \<in> set (map oi trades). ?th = Some v" if "trades \<noteq> []"
    using getOIPercentileValue_in_set [OF that, of 75] by simp
  have th: "?th = Some (sort (map oi trades) !
      min (nat \<lfloor>75 / 100 * real (length trades)\<rfloor>) (length trades - 1))"
    if "trades \<noteq> [] \<and> length trades < 2 ^ 51"
    using getOIPercentileValue_75 [of trades] that by blast
  note eq = getBestLevelForCondition_eq [of trades conditionFn]
  have none: "getBestLevelForCondition trades conditionFn = None"
    if "filter (\<lambda>t. conditionFn t ?th) trades = []"
    using that by (simp add: getBestLevelForCondition_def Let_def)
  have top: "best \<in> set ?stats \<and> (\<forall>r \<in> set ?stats. avgMfe r \<le> avgMfe best)"
    if "getBestLevelForCondition trades conditionFn = Some best"
  proof -
    from that eq obtain rest where s: "?stats = best # rest"
      by (auto split: list.splits)
    have "sorted_wrt (\<lambda>a b. avgMfe a \<ge> avgMfe b) (best # rest)"
      using sorted_calculateSingleFactorStats [of "filter (\<lambda>t. conditionFn t ?th) trades"]
      unfolding s .
    then have "\<forall>r \<in> set (best # rest). avgMfe r \<le> avgMfe best"
      using sorted_wrt_head_greatest [of avgMfe best rest] by blast
    then show ?thesis unfolding s by simp
  qed
  have agree: "getBestLevelForCondition trades conditionFn' =
      getBestLevelForCondition trades conditionFn"
    if "\<forall>t \<in> set trades. conditionFn' t ?th = conditionFn t ?th"
  proof -
    from that have "filter (\<lambda>t. conditionFn' t ?th) trades = filter (\<lambda>t. conditionFn t ?th) trades"
      by (simp cong: filter_cong)
    then show ?thesis
      by (simp only: getBestLevelForCondition_eq)
  qed
  from empty df th eq none top agree show ?thesis by blast
qed

theorem getBestLevelForCondition_threshold_witness:
  "[exampleTrade [''A'', ''B''] ''SFP'' 10 1 10, exampleTrade [''A''] ''SFP'' 20 2 20,
    exampleTrade [''A'', ''B''] ''SFP'' 6 3 30, exampleTrade [''C''] ''SFP'' 50 0 40] \<noteq> []
   \<and> getOIPercentileValue
        [exampleTrade [''A'', ''B''] ''SFP'' 10 1 10, exampleTrade [''A''] ''SFP'' 20 2 20,
         exampleTrade [''A'', ''B''] ''SFP'' 6 3 30, exampleTrade [''C''] ''SFP'' 50 0 40] 75
       = Some 40
   \<and> getBestLevelForCondition
        [exampleTrade [''A'', ''B''] ''SFP'' 10 1 10, exampleTrade [''A''] ''SFP'' 20 2 20,
         exampleTrade [''A'', ''B''] ''SFP'' 6 3 30, exampleTrade [''C''] ''SFP'' 50 0 40]
        (\<lambda>t threshold. case threshold of Some v \<Rightarrow> oi t < v | None \<Rightarrow> False)
       = Some \<lparr> level = ''A'', avgMfe = 12, avgMae = 2, medianMfe = 10, medianMae = 2,
                 count = 3, score = 10 \<rparr>
   \<and> \<lparr> level = ''A'', avgMfe = 12, avgMae = 2, medianMfe = 10, medianMae = 2, count = 3,
        score = 10 \<rparr>
       \<in> set (calculateSingleFactorStats
                [exampleTrade [''A'', ''B''] ''SFP'' 10 1 10, exampleTrade [''A''] ''SFP'' 20 2 20,
                 exampleTrade [''A'', ''B''] ''SFP'' 6 3 30])
   \<and> getBestLevelForCondition
        [exampleTrade [''A'', ''B''] ''SFP'' 10 1 10, exampleTrade [''A''] ''SFP'' 20 2 20,
         exampleTrade [''A'', ''B''] ''SFP'' 6 3 30, exampleTrade [''C''] ''SFP'' 50 0 40]
        (\<lambda>t threshold. oi t \<le> 30)
       = Some \<lparr> level = ''A'', avgMfe = 12, avgMae = 2, medianMfe = 10, medianMae = 2,
                 count = 3, score = 10 \<rparr>
   \<and> getBestLevelForCondition
        [exampleTrade [''A'', ''B''] ''SFP'' 10 1 10, exampleTrade [''A''] ''SFP'' 20 2 20,
         exampleTrade [''A'', ''B''] ''SFP'' 6 3 30, exampleTrade [''C''] ''SFP'' 50 0 40]
        (\<lambda>t threshold. False) = None"
proof -
  let ?ts = "[exampleTrade [''A'', ''B''] ''SFP'' 10 1 10, exampleTrade [''A''] ''SFP'' 20 2 20,
              exampleTrade [''A'', ''B''] ''SFP'' 6 3 30, exampleTrade [''C''] ''SFP'' 50 0 40]"
  let ?c = "\<lambda>t threshold. case threshold of Some v \<Rightarrow> oi t < v | None \<Rightarrow> False"
  let ?c' = "\<lambda>(t::Trade) (threshold::real option). oi t \<le> 30"
  let ?n = "\<lambda>(t::Trade) (threshold::real option). False"
  let ?r = "\<lparr> level = ''A'', avgMfe = 12, avgMae = 2, medianMfe = 10, medianMae = 2,
              count = 3, score = 10 \<rparr>"
  have ne: "?ts \<noteq> []" by simp
  have lt: "length ?ts < 2 ^ 51" by simp
  from getBestLevelForCondition_threshold [of ?c ?ts] ne lt
  have "getOIPercentileValue ?ts 75 =
      Some (sort (map oi ?ts) ! min (nat \<lfloor>75 / 100 * real (length ?ts)\<rfloor>) (length ?ts - 1))"
    by blast
  then have th: "getOIPercentileValue ?ts 75 = Some 40"
    by (simp add: exampleTrade_def)
  have f: "filter (\<lambda>t. ?c t (getOIPercentileValue ?ts 75)) ?ts =
      [exampleTrade [''A'', ''B''] ''SFP'' 10 1 10, exampleTrade [''A''] ''SFP'' 20 2 20,
       exampleTrade [''A'', ''B''] ''SFP'' 6 3 30]"
    by (simp add: th) (simp add: exampleTrade_def)
  have best: "getBestLevelForCondition ?ts ?c = Some ?r"
    unfolding getBestLevelForCondition_eq f
    by (simp add: calculateSingleFactorStats_def collectLevelStats_def toAnalysisResult_def
        pushStats_def new_Set_def set_add_def activeLevels_def calculateMedian_def Let_def
        exampleTrade_def)
  from getBestLevelForCondition_threshold [of ?c ?ts ?r] best
  have "?r \<in> set (calculateSingleFactorStats
      (filter (\<lambda>t. ?c t (getOIPercentileValue ?ts 75)) ?ts))"
    by blast
  then have mem: "?r \<in> set (calculateSingleFactorStats
      [exampleTrade [''A'', ''B''] ''SFP'' 10 1 10, exampleTrade [''A''] ''SFP'' 20 2 20,
       exampleTrade [''A'', ''B''] ''SFP'' 6 3 30])"
    unfolding f .
  have ag: "\<forall>t \<in> set ?ts.
      ?c' t (getOIPercentileValue ?ts 75) = ?c t (getOIPercentileValue ?ts 75)"
    by (simp add: th) (simp add: exampleTrade_def)
  from getBestLevelForCondition_threshold [of ?c ?ts ?r ?c'] ag
  have "getBestLevelForCondition ?ts ?c' = getBestLevelForCondition ?ts ?c"
    by blast
  with best have best': "getBestLevelForCondition ?ts ?c' = Some ?r" by simp
  have "filter (\<lambda>t. ?n t (getOIPercentileValue ?ts 75)) ?ts = []" by simp
  with getBestLevelForCondition_threshold [of ?n ?ts]
  have none: "getBestLevelForCondition ?ts ?n = None" by blast
  from ne th best mem best' none show ?thesis by blast
qed

text \<open>
  C10. If no trade that satisfies the predicate at the threshold holds a real level (each
  of its slots is \<^verbatim>\<open>'None'\<close> or the empty string), \<open>getBestLevelForCondition\<close> returns
  none, also when the input list and the filtered subset are not empty. These are
  the only inputs for which it returns none.
\<close>

theorem getBestLevelForCondition_no_active_level:
  "((\<forall>t \<in> set trades. conditionFn t (getOIPercentileValue trades 75) \<longrightarrow>
        (\<forall>l \<in> set (taLevels t). l = ''None'' \<or> l = '''')) \<longrightarrow>
      getBestLevelForCondition trades conditionFn = None)
   \<and> (getBestLevelForCondition trades conditionFn = None \<longrightarrow>
        (\<forall>t \<in> set trades. conditionFn t (getOIPercentileValue trades 75) \<longrightarrow>
           (\<forall>l \<in> set (taLevels t). l = ''None'' \<or> l = '''')))"
proof -
  let ?f = "filter (\<lambda>t. conditionFn t (getOIPercentileValue trades 75)) trades"
  have a: "activeLevels t = [] \<longleftrightarrow> (\<forall>l \<in> set (taLevels t). l = ''None'' \<or> l = '''')" for t
    by (auto simp add: activeLevels_def filter_empty_conv)
  have "getBestLevelForCondition trades conditionFn = None \<longleftrightarrow>
      calculateSingleFactorStats ?f = []"
    unfolding getBestLevelForCondition_eq by (simp split: list.split)
  also have "\<dots> \<longleftrightarrow> (\<forall>t \<in> set ?f. activeLevels t = [])"
    by (rule calculateSingleFactorStats_Nil_iff)
  also have "\<dots> \<longleftrightarrow> (\<forall>t \<in> set trades. conditionFn t (getOIPercentileValue trades 75) \<longrightarrow>
      (\<forall>l \<in> set (taLevels t). l = ''None'' \<or> l = ''''))"
    by (auto simp add: a)
  finally show ?thesis by blast
qed

theorem getBestLevelForCondition_no_active_level_witness:
  "[exampleTrade [''None'', '''', ''None''] ''SFP'' 10 1 10, exampleTrade [''A''] ''SFP'' 20 2 20]
     \<noteq> []
   \<and> filter (\<lambda>t. oi t \<le> 15)
       [exampleTrade [''None'', '''', ''None''] ''SFP'' 10 1 10, exampleTrade [''A''] ''SFP'' 20 2 20]
     = [exampleTrade [''None'', '''', ''None''] ''SFP'' 10 1 10]
   \<and> getBestLevelForCondition
        [exampleTrade [''None'', '''', ''None''] ''SFP'' 10 1 10, exampleTrade [''A''] ''SFP'' 20 2 20]
        (\<lambda>t threshold. oi t \<le> 15) = None"
proof -
  let ?ts = "[exampleTrade [''None'', '''', ''None''] ''SFP'' 10 1 10,
              exampleTrade [''A''] ''SFP'' 20 2 20]"
  let ?c = "\<lambda>(t::Trade) (threshold::real option). oi t \<le> 15"
  have ne: "?ts \<noteq> []" by simp
  have f: "filter (\<lambda>t. oi t \<le> 15) ?ts = [exampleTrade [''None'', '''', ''None''] ''SFP'' 10 1 10]"
    by (simp add: exampleTrade_def)
  have h: "\<forall>t \<in> set ?ts. ?c t (getOIPercentileValue ?ts 75) \<longrightarrow>
      (\<forall>l \<in> set (taLevels t). l = ''None'' \<or> l = '''')"
    by (simp add: exampleTrade_def)
  from getBestLevelForCondition_no_active_level [of ?ts ?c] h
  have "getBestLevelForCondition ?ts ?c = None" by blast
  with ne f show ?thesis by blast
qed

subsection \<open>Pairwise aggregator\<close>

text \<open>
  The nested loops, as a recursion over the sorted levels: the first level is paired
  with each later one, then the loops go on with the rest.
\<close>

lemma levelPairs_Nil: "levelPairs [] = []"
  by (simp add: levelPairs_def)

lemma levelPairs_Cons: "levelPairs (x # xs) = map (Pair x) xs @ levelPairs xs"
proof -
  let ?n = "length xs"
  have a: "[0..<Suc ?n] = 0 # map Suc [0..<?n]"
    by (simp add: upt_conv_Cons map_Suc_upt del: upt_Suc)
  have b: "[Suc i..<Suc ?n] = map Suc [i..<?n]" for i
    by (simp add: map_Suc_upt)
  have c: "map (\<lambda>j. (x, xs ! j)) [0..<?n] = map (Pair x) xs"
    by (rule nth_equalityI) simp_all
  show ?thesis
    unfolding levelPairs_def
    by (simp add: a b c comp_def del: upt_Suc)
qed

lemma set_levelPairs_subset: "set (levelPairs xs) \<subseteq> set xs \<times> set xs"
  by (induction xs) (auto simp add: levelPairs_Nil levelPairs_Cons)

text \<open>
  What holds of the pairs of one trade. The first component of a pair never comes after
  the second in the lexicographic order. Where the active levels of the trade are
  pairwise distinct, the pairs are exactly the 2-combinations of these levels, each once.
\<close>

lemma levelPairs_sorted_le:
  "sorted xs \<Longrightarrow> (a, b) \<in> set (levelPairs xs) \<Longrightarrow> a \<le> b"
proof (induction xs)
  case Nil
  then show ?case by (simp add: levelPairs_Nil)
next
  case (Cons x xs)
  then show ?case by (auto simp add: levelPairs_Cons)
qed

lemma distinct_levelPairs: "distinct xs \<Longrightarrow> distinct (levelPairs xs)"
proof (induction xs)
  case Nil
  then show ?case by (simp add: levelPairs_Nil)
next
  case (Cons x xs)
  have "distinct (map (Pair x) xs)" using Cons.prems by (simp add: distinct_map inj_on_def)
  moreover have "set (map (Pair x) xs) \<inter> set (levelPairs xs) = {}"
    using set_levelPairs_subset [of xs] Cons.prems by auto
  ultimately show ?case using Cons by (simp add: levelPairs_Cons)
qed

lemma set_levelPairs_sorted:
  "sorted xs \<Longrightarrow> distinct xs \<Longrightarrow>
   set (levelPairs xs) = {(a, b). a \<in> set xs \<and> b \<in> set xs \<and> a < b}"
proof (induction xs)
  case Nil
  then show ?case by (simp add: levelPairs_Nil)
next
  case (Cons x xs)
  then have lt: "\<forall>y \<in> set xs. x < y" by (auto simp add: less_le)
  from Cons have IH: "set (levelPairs xs) = {(a, b). a \<in> set xs \<and> b \<in> set xs \<and> a < b}"
    by simp
  show ?case unfolding levelPairs_Cons using lt by (auto simp add: IH)
qed

lemma levelPairs_of_distinct_levels:
  assumes "distinct (activeLevels trade)"
  shows "distinct (levelPairs (sort (activeLevels trade)))"
    and "set (levelPairs (sort (activeLevels trade))) =
      {(a, b). a \<in> set (activeLevels trade) \<and> b \<in> set (activeLevels trade) \<and> a < b}"
  using assms distinct_levelPairs [of "sort (activeLevels trade)"]
    set_levelPairs_sorted [of "sort (activeLevels trade)"]
  by simp_all

text \<open>
  What holds of the rows for every trade list: each has a count of at least 2, and they
  are in descending order of average MFE.
\<close>

lemma calculatePairStats_rows:
  "(\<forall>r \<in> set (calculatePairStats trades). PairAnalysisResult.count r \<ge> 2)
   \<and> sorted_wrt (\<lambda>a b. PairAnalysisResult.avgMfe a \<ge> PairAnalysisResult.avgMfe b)
        (calculatePairStats trades)"
proof -
  have "sorted (map (\<lambda>r. - PairAnalysisResult.avgMfe r) (calculatePairStats trades))"
    by (simp add: calculatePairStats_def)
  then have "sorted_wrt (\<lambda>a b. PairAnalysisResult.avgMfe a \<ge> PairAnalysisResult.avgMfe b)
      (calculatePairStats trades)"
    by (simp add: sorted_map sorted_wrt_iff_nth_less)
  then show ?thesis by (simp add: calculatePairStats_def)
qed

text \<open>
  C1, evaluated on the code. The pairwise aggregator sorts the active levels of a trade
  without removing repetitions, unlike \<open>calculateSingleFactorStats\<close>, which goes through a
  \<^verbatim>\<open>Set\<close>. A trade with the slots \<open>[B, A, A, C]\<close> therefore generates the pairs
  \<open>(A,A)\<close>, \<open>(A,B)\<close>, \<open>(A,C)\<close>, \<open>(A,B)\<close>, \<open>(A,C)\<close>, \<open>(B,C)\<close>: a level paired with itself and
  two pairs repeated, and this single trade alone yields the rows \<open>(A,B)\<close> and \<open>(A,C)\<close>
  with count 2.
\<close>

theorem levelPairs_repeated_level:
  "levelPairs (sort (activeLevels (exampleTrade [''B'', ''A'', ''A'', ''C''] ''SFP'' 10 1 0))) =
     [(''A'', ''A''), (''A'', ''B''), (''A'', ''C''), (''A'', ''B''), (''A'', ''C''), (''B'', ''C'')]
   \<and> calculatePairStats [exampleTrade [''B'', ''A'', ''A'', ''C''] ''SFP'' 10 1 0] =
     [\<lparr> pair = (''A'', ''B''), PairAnalysisResult.avgMfe = 10, PairAnalysisResult.count = 2 \<rparr>,
      \<lparr> pair = (''A'', ''C''), PairAnalysisResult.avgMfe = 10, PairAnalysisResult.count = 2 \<rparr>]"
  by (simp add: calculatePairStats_def collectPairStats_def toPairResult_def addPair_def
      levelPairs_def activeLevels_def exampleTrade_def upt_rec)

text \<open>
  C4, evaluated on the code. With the single trade \<open>[A, A, B]\<close> the pair \<open>(A,B)\<close> is
  exhibited by exactly one trade, yet it is counted once for each of the two positions of
  \<open>A\<close> and appears in the output with count 2.
\<close>

theorem calculatePairStats_single_trade_row:
  "calculatePairStats [exampleTrade [''A'', ''A'', ''B''] ''SFP'' 10 1 0] =
     [\<lparr> pair = (''A'', ''B''), PairAnalysisResult.avgMfe = 10, PairAnalysisResult.count = 2 \<rparr>]"
  by (simp add: calculatePairStats_def collectPairStats_def toPairResult_def addPair_def
      levelPairs_def activeLevels_def exampleTrade_def upt_rec)

subsection \<open>Heat map of TA level against entry type\<close>

text \<open>
  What holds of the entry-type heat map for every trade list: a trade without an entry
  type changes nothing in the result.
\<close>

lemma foldl_heatmapStep_filter:
  "foldl heatmapStep st (filter (\<lambda>t. entryType t \<noteq> '''') trades) = foldl heatmapStep st trades"
  by (induction trades arbitrary: st) (auto simp add: heatmapStep_def split: prod.splits)

lemma calculateHeatmapStats_skips_empty_entry:
  "calculateHeatmapStats (filter (\<lambda>t. entryType t \<noteq> '''') trades) =
   calculateHeatmapStats trades"
  by (simp add: calculateHeatmapStats_def foldl_heatmapStep_filter)

text \<open>
  C2, evaluated on the code. The heat map walks the active levels of a trade without
  removing repetitions. Of the two trades below, both of entry type \<open>SFP\<close>, the first holds
  \<open>A\<close> in two slots with MFE 10 and the second holds \<open>A\<close> once with MFE 40: two trades
  contribute to the cell \<open>(A, SFP)\<close> and the mean of their MFE is 25, but the cell has count
  3 and average 20, and \<open>maxMfe\<close> is 20. The session and delta variants count the same
  way.
\<close>

theorem calculateHeatmapStats_repeated_level:
  "calculateHeatmapStats
     [exampleTrade [''A'', ''A''] ''SFP'' 10 1 0, exampleTrade [''A''] ''SFP'' 40 1 0] =
     \<lparr> xLabels = [''SFP''], yLabels = [''A''], grid = [(''A::SFP'', 20, 3)], maxMfe = 20 \<rparr>
   \<and> length (levelGroup ''A''
        [exampleTrade [''A'', ''A''] ''SFP'' 10 1 0, exampleTrade [''A''] ''SFP'' 40 1 0]) = 2
   \<and> sum_list (map mfe (levelGroup ''A''
        [exampleTrade [''A'', ''A''] ''SFP'' 10 1 0, exampleTrade [''A''] ''SFP'' 40 1 0])) / 2 = 25
   \<and> calculateSessionLevelHeatmap
       [exampleTrade [''A'', ''A''] ''SFP'' 10 1 0, exampleTrade [''A''] ''SFP'' 40 1 0] =
       \<lparr> xLabels = [''N/A''], yLabels = [''A''], grid = [(''A::N/A'', 20, 3)], maxMfe = 20 \<rparr>
   \<and> calculateDeltaLevelHeatmap
       [exampleTrade [''A'', ''A''] ''SFP'' 10 1 0, exampleTrade [''A''] ''SFP'' 40 1 0] =
       \<lparr> xLabels = [''Low''], yLabels = [''A''], grid = [(''A::Low'', 20, 3)], maxMfe = 20 \<rparr>"
  by (simp add: calculateHeatmapStats_def heatmapStep_def gridStep_def addCell_def set_add_def
      calculateSessionLevelHeatmap_def sessionHeatmapStep_def calculateDeltaLevelHeatmap_def
      deltaHeatmapStep_def getDeltaCategory_def activeLevels_def levelGroup_def
      exampleTrade_def Let_def)

end
